theory Spec2Isabelle
  imports Main "HOL-Library.Word"
begin

unbundle bit_operations_syntax

section \<open>Data model\<close>

text \<open>
  The store of \<^verbatim>\<open>mongodbstore.go\<close> sits between three libraries: gorilla's
  \<^verbatim>\<open>sessions\<close> and \<^verbatim>\<open>securecookie\<close>, and the MongoDB driver. Their values are
  modelled as far as the store looks at them.

  A Go \<^verbatim>\<open>time.Time\<close> is an instant, here its nanoseconds since the Unix epoch (the location
  and the monotonic reading are left out). A Go \<^verbatim>\<open>interface{}\<close>
  stored in a session is one of a few dynamic types; \<^verbatim>\<open>VTime\<close> is the one the store
  asks for under the key \<^verbatim>\<open>"modified"\<close>.
\<close>

type_synonym time = int

datatype val = VNil | VBool bool | VInt int | VString string | VTime time

text \<open>\<^verbatim>\<open>map[interface{}]interface{}\<close>, the type of \<^verbatim>\<open>sessions.Session.Values\<close>.\<close>

type_synonym vals = "val \<rightharpoonup> val"

text \<open>
  Every error value the store can hand back. \<^verbatim>\<open>ErrInvalidId\<close> is the package's own
  sentinel, \<^verbatim>\<open>ErrInvalidModified\<close> is
  \<^verbatim>\<open>errors.New("mongodbstore: invalid modified value")\<close>; the others come from the
  libraries: \<^verbatim>\<open>mongo.ErrNoDocuments\<close>, securecookie's \<^verbatim>\<open>errNoCodecs\<close>, a codec's own
  error, securecookie's \<^verbatim>\<open>MultiError\<close> (a slice of errors), a driver error and an
  error of the token transport.
\<close>

datatype error =
    ErrInvalidId
  | ErrInvalidModified
  | ErrNoDocuments
  | errNoCodecs
  | CodecError string
  | MultiError "error list"
  | DriverError string
  | TokenError string

text \<open>\<^verbatim>\<open>primitive.ObjectID\<close> is \<^verbatim>\<open>[12]byte\<close>; the model keeps the bytes in a list.\<close>

type_synonym ObjectID = "8 word list"

text \<open>
  The persisted document, \<^verbatim>\<open>type Session struct\<close> of the package. Its field \<^verbatim>\<open>ID\<close> is
  called \<open>doc_ID\<close> here, since gorilla's session has a field \<^verbatim>\<open>ID\<close> as well.
\<close>

record Session =
  doc_ID :: ObjectID
  Data :: string
  Modified :: time

subsection \<open>Timestamps in the database\<close>

text \<open>
  The driver writes a \<^verbatim>\<open>time.Time\<close> as a BSON datetime, \<^verbatim>\<open>primitive.DateTime\<close>: an \<^verbatim>\<open>int64\<close> of
  milliseconds since the epoch, computed as \<^verbatim>\<open>t.Unix()*1000 + t.Nanosecond()/1e6\<close> in
  \<^verbatim>\<open>int64\<close>. \<^verbatim>\<open>Unix\<close> is the whole seconds (rounded down) and \<^verbatim>\<open>Nanosecond\<close> the rest, from 0
  to 999999999. Reading the datetime back gives the instant of that millisecond. So a
  document in the collection holds its \<^verbatim>\<open>Modified\<close> cut to the millisecond: \<open>persisted\<close> is
  the struct \<^verbatim>\<open>Session\<close> as the collection keeps it.
\<close>

definition Unix :: "time \<Rightarrow> int" where
  "Unix t = t div 1000000000"

definition Nanosecond :: "time \<Rightarrow> int" where
  "Nanosecond t = t mod 1000000000"

type_synonym DateTime = "64 word"

definition NewDateTimeFromTime :: "time \<Rightarrow> DateTime" where
  "NewDateTimeFromTime t = word_of_int (Unix t) * 1000 + word_of_int (Nanosecond t div 1000000)"

definition DateTime_Time :: "DateTime \<Rightarrow> time" where
  "DateTime_Time d = sint d * 1000000"

definition persisted :: "Session \<Rightarrow> Session" where
  "persisted s = s\<lparr>Modified := DateTime_Time (NewDateTimeFromTime (Modified s))\<rparr>"

text \<open>The instants whose millisecond count fits the \<^verbatim>\<open>int64\<close> of a datetime.\<close>

definition fits_DateTime :: "time \<Rightarrow> bool" where
  "fits_DateTime t \<longleftrightarrow> - (2 ^ 63) \<le> t div 1000000 \<and> t div 1000000 < 2 ^ 63"

text \<open>\<^verbatim>\<open>sessions.Options\<close>, the five fields \<^verbatim>\<open>New\<close> copies.\<close>

record Options =
  Path :: string
  Domain :: string
  MaxAge :: int
  Secure :: bool
  HttpOnly :: bool

text \<open>
  \<^verbatim>\<open>sessions.Session\<close>. \<^verbatim>\<open>Save\<close> reads \<^verbatim>\<open>session.Options.MaxAge\<close> first, so a session
  always comes with its options, as every session made by \<^verbatim>\<open>New\<close> does.
\<close>

record sessions_Session =
  ID :: string
  Values :: vals
  Options :: Options
  IsNew :: bool
  name :: string

subsection \<open>Codecs\<close>

text \<open>
  What a codec encodes is either the session identifier (a string) or the values
  mapping. A codec's behaviour is a parameter of the model: an encoder and a decoder.
  \<^verbatim>\<open>MaxAge\<close> tells a \<^verbatim>\<open>*securecookie.SecureCookie\<close> from any other implementation of the
  \<^verbatim>\<open>securecookie.Codec\<close> interface, so the model has both: a \<open>SecureCookie\<close> carries
  its \<^verbatim>\<open>maxAge\<close> field, and its behaviour may depend on it.
\<close>

datatype payload = PString string | PValues vals

type_synonym encoder = "string \<Rightarrow> payload \<Rightarrow> error + string"
type_synonym decoder = "string \<Rightarrow> string \<Rightarrow> error + payload"

datatype Codec =
    SecureCookie int "int \<Rightarrow> encoder" "int \<Rightarrow> decoder"
  | OtherCodec encoder decoder

fun Encode :: "Codec \<Rightarrow> string \<Rightarrow> payload \<Rightarrow> error + string" where
  "Encode (SecureCookie age enc dec) n v = enc age n v"
| "Encode (OtherCodec enc dec) n v = enc n v"

text \<open>
  \<^verbatim>\<open>Decode(name, value, dst)\<close> writes into \<^verbatim>\<open>dst\<close>, a \<^verbatim>\<open>*string\<close> or a pointer to the
  values mapping. The destination is modelled by the projection that accepts a payload of
  its type; a payload of the other type is a deserialisation error of that codec. A codec
  that fails leaves the destination as it was.
\<close>

fun string_dst :: "payload \<Rightarrow> string option" where
  "string_dst (PString s) = Some s"
| "string_dst (PValues v) = None"

fun values_dst :: "payload \<Rightarrow> vals option" where
  "values_dst (PValues v) = Some v"
| "values_dst (PString s) = None"

fun decode_raw :: "Codec \<Rightarrow> string \<Rightarrow> string \<Rightarrow> error + payload" where
  "decode_raw (SecureCookie age enc dec) n v = dec age n v"
| "decode_raw (OtherCodec enc dec) n v = dec n v"

definition Decode :: "Codec \<Rightarrow> string \<Rightarrow> string \<Rightarrow> (payload \<Rightarrow> 'a option) \<Rightarrow> error + 'a" where
  "Decode c n v dst =
     (case decode_raw c n v of
        Inl err \<Rightarrow> Inl err
      | Inr p \<Rightarrow> (case dst p of
                   None \<Rightarrow> Inl (CodecError ''securecookie: the value is not valid'')
                 | Some x \<Rightarrow> Inr x))"

text \<open>
  \<^verbatim>\<open>securecookie.EncodeMulti\<close> and \<^verbatim>\<open>securecookie.DecodeMulti\<close>: no codec is an error;
  otherwise the codecs are tried in order, the first success is the result, and the
  errors of all of them are the error.
\<close>

fun EncodeMulti_loop :: "string \<Rightarrow> payload \<Rightarrow> Codec list \<Rightarrow> error list \<Rightarrow> error + string" where
  "EncodeMulti_loop n v [] errors = Inl (MultiError errors)"
| "EncodeMulti_loop n v (codec # codecs) errors =
     (case Encode codec n v of
        Inr encoded \<Rightarrow> Inr encoded
      | Inl err \<Rightarrow> EncodeMulti_loop n v codecs (errors @ [err]))"

fun EncodeMulti :: "string \<Rightarrow> payload \<Rightarrow> Codec list \<Rightarrow> error + string" where
  "EncodeMulti n v [] = Inl errNoCodecs"
| "EncodeMulti n v (codec # codecs) = EncodeMulti_loop n v (codec # codecs) []"

fun DecodeMulti_loop ::
  "string \<Rightarrow> string \<Rightarrow> (payload \<Rightarrow> 'a option) \<Rightarrow> Codec list \<Rightarrow> error list \<Rightarrow> error + 'a" where
  "DecodeMulti_loop n v dst [] errors = Inl (MultiError errors)"
| "DecodeMulti_loop n v dst (codec # codecs) errors =
     (case Decode codec n v dst of
        Inr x \<Rightarrow> Inr x
      | Inl err \<Rightarrow> DecodeMulti_loop n v dst codecs (errors @ [err]))"

fun DecodeMulti ::
  "string \<Rightarrow> string \<Rightarrow> (payload \<Rightarrow> 'a option) \<Rightarrow> Codec list \<Rightarrow> error + 'a" where
  "DecodeMulti n v dst [] = Inl errNoCodecs"
| "DecodeMulti n v dst (codec # codecs) = DecodeMulti_loop n v dst (codec # codecs) []"

subsection \<open>Object identifiers\<close>

text \<open>
  \<^verbatim>\<open>encoding/hex\<close>: a digit is \<^verbatim>\<open>0-9\<close>, \<^verbatim>\<open>a-f\<close> or \<^verbatim>\<open>A-F\<close>; two digits make a byte, the
  high nibble first; a string of odd length or with any other character does not decode.
  The store asks only whether decoding failed, so the failure is \<open>None\<close>.
\<close>

definition fromHexChar :: "char \<Rightarrow> 8 word option" where
  "fromHexChar c =
     (let n = (of_char c :: nat) in
      if 48 \<le> n \<and> n \<le> 57 then Some (of_nat (n - 48))
      else if 97 \<le> n \<and> n \<le> 102 then Some (of_nat (n - 97 + 10))
      else if 65 \<le> n \<and> n \<le> 70 then Some (of_nat (n - 65 + 10))
      else None)"

fun hex_DecodeString :: "string \<Rightarrow> 8 word list option" where
  "hex_DecodeString [] = Some []"
| "hex_DecodeString [p] = None"
| "hex_DecodeString (p # q # rest) =
     (case fromHexChar p of
        None \<Rightarrow> None
      | Some a \<Rightarrow>
          (case fromHexChar q of
             None \<Rightarrow> None
           | Some b \<Rightarrow>
               (case hex_DecodeString rest of
                  None \<Rightarrow> None
                | Some bs \<Rightarrow> Some ((push_bit 4 a OR b) # bs))))"

definition hextable :: string where
  "hextable = ''0123456789abcdef''"

definition hex_EncodeToString :: "8 word list \<Rightarrow> string" where
  "hex_EncodeToString src =
     concat (map (\<lambda>v. [hextable ! unat (drop_bit 4 v), hextable ! unat (v AND 0x0f)]) src)"

text \<open>
  \<^verbatim>\<open>primitive.ObjectIDFromHex\<close>: the string must decode to exactly twelve bytes.
  \<^verbatim>\<open>ObjectID.Hex\<close> is the lower-case hexadecimal encoding.
\<close>

definition ObjectIDFromHex :: "string \<Rightarrow> ObjectID option" where
  "ObjectIDFromHex s =
     (case hex_DecodeString s of
        None \<Rightarrow> None
      | Some b \<Rightarrow> if length b \<noteq> 12 then None else Some b)"

definition Hex :: "ObjectID \<Rightarrow> string" where
  "Hex oid = hex_EncodeToString oid"

subsection \<open>The store and its surroundings\<close>

text \<open>
  \<^verbatim>\<open>TokenGetSeter\<close> is the interface of the store's field \<^verbatim>\<open>Token\<close>. \<^verbatim>\<open>GetToken\<close> is a
  parameter: a function of the request, whose type is left open. \<^verbatim>\<open>SetToken\<close> has no
  result; what the store does with it is the sequence of its calls, so the response
  writer is modelled as that sequence.
\<close>

record 'r TokenGetSeter =
  GetToken :: "'r \<Rightarrow> string \<Rightarrow> error + string"

type_synonym ResponseWriter = "(string \<times> string \<times> Options) list"

definition SetToken :: "ResponseWriter \<Rightarrow> string \<Rightarrow> string \<Rightarrow> Options \<Rightarrow> ResponseWriter" where
  "SetToken rw n v opts = rw @ [(n, v, opts)]"

text \<open>
  \<^verbatim>\<open>MongoDBStore\<close>. The field \<^verbatim>\<open>Options\<close> is called \<open>store_Options\<close> here. The field
  \<open>collection\<close> holds the documents of the collection, keyed by \<^verbatim>\<open>_id\<close>.
\<close>

record 'r MongoDBStore =
  Codecs :: "Codec list"
  store_Options :: Options
  Token :: "'r TokenGetSeter"
  collection :: "ObjectID \<rightharpoonup> Session"

text \<open>
  What one call takes from outside: the identifier \<^verbatim>\<open>primitive.NewObjectID()\<close> would
  return, the clock \<^verbatim>\<open>time.Now()\<close>, and the outcome of the call's round trip to the
  database (each method makes at most one): \<open>None\<close> when the driver answers,
  \<open>Some err\<close> when it reports \<open>err\<close>, in which case the documents are as before.
\<close>

record env =
  NewObjectID :: ObjectID
  Now :: time
  dbFault :: "error option"

definition FindOne :: "(ObjectID \<rightharpoonup> Session) \<Rightarrow> env \<Rightarrow> ObjectID \<Rightarrow> error + Session" where
  "FindOne c e i =
     (case dbFault e of
        Some err \<Rightarrow> Inl err
      | None \<Rightarrow> (case c i of None \<Rightarrow> Inl ErrNoDocuments | Some s \<Rightarrow> Inr s))"

text \<open>
  \<^verbatim>\<open>ReplaceOne\<close> with \<^verbatim>\<open>Upsert: true\<close> and the filter \<^verbatim>\<open>{_id: i}\<close>. The driver marshals the
  struct, so the collection gets the document as \<open>persisted\<close> gives it.
\<close>

definition ReplaceOne ::
  "(ObjectID \<rightharpoonup> Session) \<Rightarrow> env \<Rightarrow> ObjectID \<Rightarrow> Session \<Rightarrow> error option \<times> (ObjectID \<rightharpoonup> Session)" where
  "ReplaceOne c e i s =
     (case dbFault e of
        Some err \<Rightarrow> (Some err, c)
      | None \<Rightarrow> (None, c(i \<mapsto> persisted s)))"

definition DeleteOne ::
  "(ObjectID \<rightharpoonup> Session) \<Rightarrow> env \<Rightarrow> ObjectID \<Rightarrow> error option \<times> (ObjectID \<rightharpoonup> Session)" where
  "DeleteOne c e i =
     (case dbFault e of
        Some err \<Rightarrow> (Some err, c)
      | None \<Rightarrow> (None, c(i := None)))"

section \<open>The store's methods\<close>

text \<open>
  \<^verbatim>\<open>load\<close>. Decoding into \<^verbatim>\<open>&session.Values\<close> adds the decoded entries to the mapping that
  is there (empty, for a session made by \<^verbatim>\<open>New\<close>).
\<close>

definition load :: "'r MongoDBStore \<Rightarrow> env \<Rightarrow> sessions_Session \<Rightarrow> error option \<times> sessions_Session" where
  "load m e session =
     (case ObjectIDFromHex (ID session) of
        None \<Rightarrow> (Some ErrInvalidId, session)
      | Some sessionID \<Rightarrow>
          (case FindOne (collection m) e sessionID of
             Inl err \<Rightarrow> (Some err, session)
           | Inr s \<Rightarrow>
               (case DecodeMulti (name session) (Data s) values_dst (Codecs m) of
                  Inl err \<Rightarrow> (Some err, session)
                | Inr v \<Rightarrow> (None, session\<lparr>Values := Values session ++ v\<rparr>))))"

text \<open>The \<^verbatim>\<open>modified\<close> timestamp of \<^verbatim>\<open>upsert\<close>: the reserved key, or the clock.\<close>

definition modified_of :: "env \<Rightarrow> sessions_Session \<Rightarrow> error + time" where
  "modified_of e session =
     (case Values session (VString ''modified'') of
        Some v \<Rightarrow> (case v of VTime t \<Rightarrow> Inr t | _ \<Rightarrow> Inl ErrInvalidModified)
      | None \<Rightarrow> Inr (Now e))"

definition upsert :: "'r MongoDBStore \<Rightarrow> env \<Rightarrow> sessions_Session \<Rightarrow> error option \<times> 'r MongoDBStore" where
  "upsert m e session =
     (case ObjectIDFromHex (ID session) of
        None \<Rightarrow> (Some ErrInvalidId, m)
      | Some sessionID \<Rightarrow>
          (case modified_of e session of
             Inl err \<Rightarrow> (Some err, m)
           | Inr modified \<Rightarrow>
               (case EncodeMulti (name session) (PValues (Values session)) (Codecs m) of
                  Inl err \<Rightarrow> (Some err, m)
                | Inr encoded \<Rightarrow>
                    (case ReplaceOne (collection m) e sessionID
                            \<lparr>doc_ID = sessionID, Data = encoded, Modified = modified\<rparr> of
                       (err, c) \<Rightarrow> (err, m\<lparr>collection := c\<rparr>)))))"

definition delete :: "'r MongoDBStore \<Rightarrow> env \<Rightarrow> sessions_Session \<Rightarrow> error option \<times> 'r MongoDBStore" where
  "delete m e session =
     (case ObjectIDFromHex (ID session) of
        None \<Rightarrow> (Some ErrInvalidId, m)
      | Some sessionID \<Rightarrow>
          (case DeleteOne (collection m) e sessionID of
             (err, c) \<Rightarrow> (err, m\<lparr>collection := c\<rparr>)))"

text \<open>
  The session \<^verbatim>\<open>New\<close> starts from: \<^verbatim>\<open>sessions.NewSession(m, name)\<close> (no identifier, an
  empty values mapping), then the store's options copied field by field and \<^verbatim>\<open>IsNew\<close>
  set.
\<close>

definition fresh_session :: "'r MongoDBStore \<Rightarrow> string \<Rightarrow> sessions_Session" where
  "fresh_session m n =
     \<lparr>ID = '''', Values = Map.empty,
      Options = \<lparr>Path = Path (store_Options m),
                 Domain = Domain (store_Options m),
                 MaxAge = MaxAge (store_Options m),
                 Secure = Secure (store_Options m),
                 HttpOnly = HttpOnly (store_Options m)\<rparr>,
      IsNew = True, name = n\<rparr>"

text \<open>
  \<^verbatim>\<open>New\<close> returns the session and the error. \<^verbatim>\<open>DecodeMulti\<close> writes the identifier into
  \<^verbatim>\<open>session.ID\<close>, \<^verbatim>\<open>load\<close> works on that session, and an error of \<^verbatim>\<open>load\<close> is replaced
  by \<^verbatim>\<open>nil\<close>.
\<close>

definition New :: "'r MongoDBStore \<Rightarrow> env \<Rightarrow> 'r \<Rightarrow> string \<Rightarrow> sessions_Session \<times> error option" where
  "New m e r n =
     (let session = fresh_session m n
      in case GetToken (Token m) r n of
           Inl errToken \<Rightarrow> (session, None)
         | Inr cook \<Rightarrow>
             (case DecodeMulti n cook string_dst (Codecs m) of
                Inl err \<Rightarrow> (session, Some err)
              | Inr sid \<Rightarrow>
                  (case load m e (session\<lparr>ID := sid\<rparr>) of
                     (None, session') \<Rightarrow> (session'\<lparr>IsNew := False\<rparr>, None)
                   | (Some err, session') \<Rightarrow> (session', None))))"

text \<open>
  \<^verbatim>\<open>Save\<close> returns the error, the store (with the collection as the call left it), the
  session as the call left it, and the response writer.
\<close>

definition Save ::
  "'r MongoDBStore \<Rightarrow> env \<Rightarrow> 'r \<Rightarrow> ResponseWriter \<Rightarrow> sessions_Session
     \<Rightarrow> error option \<times> 'r MongoDBStore \<times> sessions_Session \<times> ResponseWriter" where
  "Save m e r w session =
     (if MaxAge (Options session) < 0 then
        (case delete m e session of
           (Some err, m') \<Rightarrow> (Some err, m', session, w)
         | (None, m') \<Rightarrow> (None, m', session, SetToken w (name session) '''' (Options session)))
      else
        (let session = (if ID session = '''' then session\<lparr>ID := Hex (NewObjectID e)\<rparr> else session)
         in case upsert m e session of
              (Some err, m') \<Rightarrow> (Some err, m', session, w)
            | (None, m') \<Rightarrow>
                (case EncodeMulti (name session) (PString (ID session)) (Codecs m') of
                   Inl err \<Rightarrow> (Some err, m', session, w)
                 | Inr encoded \<Rightarrow>
                     (None, m', session, SetToken w (name session) encoded (Options session)))))"

text \<open>
  \<^verbatim>\<open>MaxAge\<close> of the store (the name \<open>MaxAge\<close> is the field of the options here). The
  loop sets \<^verbatim>\<open>maxAge\<close> in each codec that is a \<^verbatim>\<open>*securecookie.SecureCookie\<close>.
\<close>

fun SecureCookie_MaxAge :: "int \<Rightarrow> Codec \<Rightarrow> Codec" where
  "SecureCookie_MaxAge age (SecureCookie old enc dec) = SecureCookie age enc dec"
| "SecureCookie_MaxAge age (OtherCodec enc dec) = OtherCodec enc dec"

definition MongoDBStore_MaxAge :: "'r MongoDBStore \<Rightarrow> int \<Rightarrow> 'r MongoDBStore" where
  "MongoDBStore_MaxAge m age =
     m\<lparr>store_Options := (store_Options m)\<lparr>MaxAge := age\<rparr>,
       Codecs := map (SecureCookie_MaxAge age) (Codecs m)\<rparr>"

text \<open>
  Whether \<^verbatim>\<open>MaxAge\<close> can reach a codec's expiry window, and what it is then: the field
  \<^verbatim>\<open>maxAge\<close> of a \<^verbatim>\<open>SecureCookie\<close>. The \<^verbatim>\<open>Codec\<close> interface has no such method.
\<close>

fun Codec_maxAge :: "Codec \<Rightarrow> int option" where
  "Codec_maxAge (SecureCookie age enc dec) = Some age"
| "Codec_maxAge (OtherCodec enc dec) = None"

subsection \<open>What is asked of the codecs\<close>

text \<open>
  The codecs are the library's. A claim about loading what was saved needs them to decode
  what they encoded: for the name \<open>n\<close> and the payload \<open>p\<close>, every token the codec list
  encodes \<open>p\<close> to is decoded by the list, into a destination of \<open>p\<close>'s type, to \<open>p\<close>.
\<close>

definition decodes_back :: "Codec list \<Rightarrow> string \<Rightarrow> payload \<Rightarrow> bool" where
  "decodes_back cs n p \<longleftrightarrow>
     (\<forall>tok. EncodeMulti n p cs = Inr tok \<longrightarrow>
        (case p of
           PString sid \<Rightarrow> DecodeMulti n tok string_dst cs = Inr sid
         | PValues v \<Rightarrow> DecodeMulti n tok values_dst cs = Inr v))"

section \<open>A small store to run the methods on\<close>

text \<open>
  A codec that knows one values mapping \<open>V\<close>: it encodes an identifier by putting
  \<^verbatim>\<open>id:\<close> in front of it and \<open>V\<close> as the token \<^verbatim>\<open>values\<close>, and nothing else.
\<close>

definition toy_enc :: "vals \<Rightarrow> encoder" where
  "toy_enc V n p =
     (case p of
        PString s \<Rightarrow> Inr (''id:'' @ s)
      | PValues v \<Rightarrow> if v = V then Inr ''values'' else Inl (CodecError ''toy: unknown values''))"

definition toy_dec :: "vals \<Rightarrow> decoder" where
  "toy_dec V n t =
     (if t = ''values'' then Inr (PValues V)
      else if take 3 t = ''id:'' then Inr (PString (drop 3 t))
      else Inl (CodecError ''toy: not a token''))"

definition toy_codec :: "vals \<Rightarrow> Codec" where
  "toy_codec V = OtherCodec (toy_enc V) (toy_dec V)"

text \<open>A token transport over a cookie jar: the request is the mapping from cookie names to values.\<close>

definition jar_Token :: "(string \<rightharpoonup> string) TokenGetSeter" where
  "jar_Token =
     \<lparr>GetToken = (\<lambda>r n. case r n of
                           None \<Rightarrow> Inl (TokenError ''http: named cookie not present'')
                         | Some v \<Rightarrow> Inr v)\<rparr>"

definition toy_Options :: Options where
  "toy_Options = \<lparr>Path = ''/'', Domain = '''', MaxAge = 3600, Secure = False, HttpOnly = False\<rparr>"

definition toy_store :: "vals \<Rightarrow> (string \<rightharpoonup> string) MongoDBStore" where
  "toy_store V =
     \<lparr>Codecs = [toy_codec V], store_Options = toy_Options, Token = jar_Token,
      collection = Map.empty\<rparr>"

definition toy_oid :: ObjectID where
  "toy_oid = [1, 2, 3, 4, 5, 6, 7, 8, 9, 10, 11, 255]"

definition toy_env :: env where
  "toy_env = \<lparr>NewObjectID = toy_oid, Now = 7000123, dbFault = None\<rparr>"

text \<open>A session that was never saved, and the same session marked for deletion.\<close>

definition toy_session :: "vals \<Rightarrow> sessions_Session" where
  "toy_session V = \<lparr>ID = '''', Values = V, Options = toy_Options, IsNew = True, name = ''sid''\<rparr>"

definition toy_expired :: "vals \<Rightarrow> sessions_Session" where
  "toy_expired V = (toy_session V)\<lparr>Options := toy_Options\<lparr>MaxAge := - 1\<rparr>\<rparr>"

definition toy_doc :: "string \<Rightarrow> time \<Rightarrow> Session" where
  "toy_doc d t = \<lparr>doc_ID = toy_oid, Data = d, Modified = t\<rparr>"

text \<open>The same surroundings with the database out of reach.\<close>

definition toy_env_down :: env where
  "toy_env_down = toy_env\<lparr>dbFault := Some (DriverError ''connection refused'')\<rparr>"

text \<open>
  A \<open>SecureCookie\<close> that encodes the values as the toy codec does and refuses every
  identifier, and stores that use it.
\<close>

definition mute_codec :: "vals \<Rightarrow> Codec" where
  "mute_codec V =
     SecureCookie 3600
       (\<lambda>age n p. case p of
                     PString s \<Rightarrow> Inl (CodecError ''securecookie: the value is too long'')
                   | PValues v \<Rightarrow> toy_enc V n p)
       (\<lambda>age. toy_dec V)"

definition mute_store :: "vals \<Rightarrow> (string \<rightharpoonup> string) MongoDBStore" where
  "mute_store V = (toy_store V)\<lparr>Codecs := [mute_codec V]\<rparr>"

definition mixed_store :: "(string \<rightharpoonup> string) MongoDBStore" where
  "mixed_store = (toy_store Map.empty)\<lparr>Codecs := [mute_codec Map.empty, toy_codec Map.empty]\<rparr>"

section \<open>Hexadecimal identifiers\<close>

lemma hi_nibble_less: "unat (drop_bit 4 (v :: 8 word)) < 16"
proof -
  have "unat v < 256" using unsigned_less [of v, where 'a = nat] by simp
  moreover have "unat (drop_bit 4 v) = drop_bit 4 (unat v)"
    by (rule unat_drop_bit_eq)
  moreover have "drop_bit 4 (unat v) = unat v div 2 ^ 4"
    by (rule drop_bit_eq_div)
  ultimately show ?thesis by simp
qed

lemma lo_nibble_less: "unat ((v :: 8 word) AND 0x0f) < 16"
proof -
  have "v AND 15 \<le> 15" by (rule word_and_le1)
  then have "unat (v AND 15) \<le> unat (15 :: 8 word)" by (simp only: word_le_nat_alt)
  then show ?thesis by simp
qed

lemma nibbles_join: "push_bit 4 (drop_bit 4 (v :: 8 word)) OR (v AND 0x0f) = v"
proof (rule bit_word_eqI)
  fix n assume n: "n < LENGTH(8)"
  have m: "(15 :: 8 word) = mask 4" by (simp add: mask_eq_exp_minus_1)
  show "bit (push_bit 4 (drop_bit 4 v) OR (v AND 0x0f)) n = bit v n"
    unfolding m using n by (auto simp: bit_simps)
qed

lemma nibble_cases: "n < 16 \<Longrightarrow> n \<in> {0,1,2,3,4,5,6,7,8,9,10,11,12,13,14,15::nat}"
  by simp arith

lemma fromHexChar_hextable: "n < 16 \<Longrightarrow> fromHexChar (hextable ! n) = Some (of_nat n)"
  using nibble_cases [of n] by (auto simp: fromHexChar_def hextable_def)

lemma fromHexChar_nibble:
  "unat (x :: 8 word) < 16 \<Longrightarrow> fromHexChar (hextable ! unat x) = Some x"
  by (simp add: fromHexChar_hextable)

lemma hextable_nth_mem: "n < 16 \<Longrightarrow> hextable ! n \<in> set hextable"
  by (rule nth_mem) (simp add: hextable_def)

lemma hex_DecodeString_EncodeToString: "hex_DecodeString (hex_EncodeToString src) = Some src"
proof (induction src)
  case Nil
  show ?case by (simp add: hex_EncodeToString_def)
next
  case (Cons v src)
  have "hex_EncodeToString (v # src) =
          hextable ! unat (drop_bit 4 v) # hextable ! unat (v AND 0x0f) # hex_EncodeToString src"
    by (simp add: hex_EncodeToString_def)
  then show ?case
    using Cons.IH
    by (simp add: fromHexChar_nibble hi_nibble_less lo_nibble_less nibbles_join)
qed

lemma length_hex_EncodeToString: "length (hex_EncodeToString src) = 2 * length src"
  by (induction src) (simp_all add: hex_EncodeToString_def)

lemma set_hex_EncodeToString: "set (hex_EncodeToString src) \<subseteq> set hextable"
  by (induction src)
     (simp_all add: hex_EncodeToString_def hextable_nth_mem hi_nibble_less lo_nibble_less)

lemma ObjectIDFromHex_Hex: "length oid = 12 \<Longrightarrow> ObjectIDFromHex (Hex oid) = Some oid"
  by (simp add: ObjectIDFromHex_def Hex_def hex_DecodeString_EncodeToString)

lemma length_Hex: "length oid = 12 \<Longrightarrow> length (Hex oid) = 24"
  by (simp add: Hex_def length_hex_EncodeToString)

lemma ObjectIDFromHex_empty: "ObjectIDFromHex '''' = None"
  by (simp add: ObjectIDFromHex_def)

lemma Hex_toy_oid: "Hex toy_oid = ''0102030405060708090a0bff''"
  by (simp add: toy_oid_def Hex_def hex_EncodeToString_def hextable_def drop_bit_eq_div)

lemma ObjectIDFromHex_toy: "ObjectIDFromHex ''0102030405060708090a0bff'' = Some toy_oid"
  by (simp add: toy_oid_def ObjectIDFromHex_def fromHexChar_def)

lemma ObjectIDFromHex_xyz: "ObjectIDFromHex ''xyz'' = None"
  by (simp add: ObjectIDFromHex_def fromHexChar_def)

lemmas toy_defs =
  toy_enc_def toy_dec_def toy_codec_def jar_Token_def toy_Options_def toy_store_def
  toy_env_def toy_session_def toy_expired_def toy_doc_def toy_env_down_def mute_codec_def
  mute_store_def

lemmas store_defs =
  Save_def New_def load_def upsert_def delete_def modified_of_def fresh_session_def
  FindOne_def ReplaceOne_def DeleteOne_def SetToken_def Decode_def Let_def
  persisted_def NewDateTimeFromTime_def DateTime_Time_def Unix_def Nanosecond_def

section \<open>Timestamps in the database\<close>

lemma persisted_doc_ID: "doc_ID (persisted s) = doc_ID s"
  by (simp add: persisted_def)

lemma persisted_Data: "Data (persisted s) = Data s"
  by (simp add: persisted_def)

lemma Modified_persisted: "Modified (persisted s) = DateTime_Time (NewDateTimeFromTime (Modified s))"
  by (simp add: persisted_def)

lemma milliseconds_of_time: "Unix t * 1000 + Nanosecond t div 1000000 = t div 1000000"
proof -
  have "t = Unix t * 1000000000 + Nanosecond t"
    by (simp add: Unix_def Nanosecond_def)
  then have "t div 1000000 = (Nanosecond t + Unix t * 1000 * 1000000) div 1000000"
    by (simp add: algebra_simps)
  also have "\<dots> = Nanosecond t div 1000000 + Unix t * 1000"
    by simp
  finally show ?thesis by simp
qed

lemma NewDateTimeFromTime_div: "NewDateTimeFromTime t = word_of_int (t div 1000000)"
proof -
  have "NewDateTimeFromTime t = word_of_int (Unix t * 1000 + Nanosecond t div 1000000)"
    by (simp add: NewDateTimeFromTime_def)
  then show ?thesis by (simp only: milliseconds_of_time)
qed

lemma DateTime_roundtrip:
  assumes "fits_DateTime t"
  shows "DateTime_Time (NewDateTimeFromTime t) = t div 1000000 * 1000000"
proof -
  have "sint (word_of_int (t div 1000000) :: 64 word) = t div 1000000"
    using assms
    by (simp add: fits_DateTime_def sint_sbintrunc' signed_take_bit_int_eq_self)
  then show ?thesis
    by (simp add: DateTime_Time_def NewDateTimeFromTime_div)
qed

lemma DateTime_roundtrip_whole:
  assumes "fits_DateTime t" and "t mod 1000000 = 0"
  shows "DateTime_Time (NewDateTimeFromTime t) = t"
  using DateTime_roundtrip [OF assms(1)] assms(2) by (simp add: mod_eq_0_iff_dvd)

lemma DateTime_cut_bounds:
  "(t :: int) div 1000000 * 1000000 \<le> t \<and> t < t div 1000000 * 1000000 + 1000000"
proof -
  have "t = t div 1000000 * 1000000 + t mod 1000000" by simp
  moreover have "0 \<le> t mod 1000000" and "t mod 1000000 < 1000000" by simp_all
  ultimately show ?thesis by linarith
qed

section \<open>Codec lists\<close>

lemma DecodeMulti_loop_all_fail:
  "\<forall>c \<in> set cs. \<exists>err. Decode c n v dst = Inl err \<Longrightarrow>
   \<exists>errs. DecodeMulti_loop n v dst cs errors = Inl (MultiError errs)"
  by (induction cs arbitrary: errors) auto

lemma DecodeMulti_all_fail:
  "\<forall>c \<in> set cs. \<exists>err. Decode c n v dst = Inl err \<Longrightarrow> \<exists>err. DecodeMulti n v dst cs = Inl err"
proof (cases cs)
  case Nil
  then show ?thesis by simp
next
  case (Cons c cs')
  assume "\<forall>c \<in> set cs. \<exists>err. Decode c n v dst = Inl err"
  then obtain errs where "DecodeMulti_loop n v dst cs [] = Inl (MultiError errs)"
    using DecodeMulti_loop_all_fail by blast
  with Cons show ?thesis by simp
qed

lemma decodes_back_toy: "decodes_back [toy_codec V] n p"
  by (cases p) (auto simp: decodes_back_def toy_codec_def toy_enc_def toy_dec_def Decode_def)

section \<open>upsert\<close>

lemma upsert_None:
  "upsert m e s = (None, m') \<Longrightarrow>
   \<exists>oid t enc. ObjectIDFromHex (ID s) = Some oid \<and> modified_of e s = Inr t \<and>
     EncodeMulti (name s) (PValues (Values s)) (Codecs m) = Inr enc \<and> dbFault e = None \<and>
     m' = m\<lparr>collection := (collection m)(oid \<mapsto> persisted \<lparr>doc_ID = oid, Data = enc, Modified = t\<rparr>)\<rparr>"
  by (auto simp: upsert_def ReplaceOne_def split: option.splits sum.splits)

lemma upsert_Some: "upsert m e s = (Some err, m') \<Longrightarrow> m' = m"
  by (auto simp: upsert_def ReplaceOne_def split: option.splits sum.splits)

lemma upsert_encode_error:
  "ObjectIDFromHex (ID s) = Some oid \<Longrightarrow> modified_of e s = Inr t \<Longrightarrow>
   EncodeMulti (name s) (PValues (Values s)) (Codecs m) = Inl err \<Longrightarrow>
   upsert m e s = (Some err, m)"
  by (simp add: upsert_def)

lemma upsert_db_error:
  "ObjectIDFromHex (ID s) = Some oid \<Longrightarrow> modified_of e s = Inr t \<Longrightarrow>
   EncodeMulti (name s) (PValues (Values s)) (Codecs m) = Inr enc \<Longrightarrow>
   dbFault e = Some err \<Longrightarrow>
   upsert m e s = (Some err, m)"
  by (simp add: upsert_def ReplaceOne_def)

lemma modified_of_pinned:
  "Values s (VString ''modified'') = Some (VTime T) \<Longrightarrow> modified_of e s = Inr T"
  by (simp add: modified_of_def)

lemma modified_of_absent:
  "Values s (VString ''modified'') = None \<Longrightarrow> modified_of e s = Inr (Now e)"
  by (simp add: modified_of_def)

lemma modified_of_invalid:
  "Values s (VString ''modified'') = Some v \<Longrightarrow> \<forall>T. v \<noteq> VTime T \<Longrightarrow>
   modified_of e s = Inl ErrInvalidModified"
  by (cases v) (simp_all add: modified_of_def)

lemma upsert_invalid_modified:
  "modified_of e s = Inl ErrInvalidModified \<Longrightarrow>
   upsert m e s =
     (Some (if ObjectIDFromHex (ID s) = None then ErrInvalidId else ErrInvalidModified), m)"
  by (simp add: upsert_def split: option.splits)

section \<open>Save\<close>

text \<open>With a max-age that is not negative, \<^verbatim>\<open>Save\<close> is its second half.\<close>

lemma Save_nonneg:
  "0 \<le> MaxAge (Options s) \<Longrightarrow>
   Save m e r w s =
     (let session = (if ID s = '''' then s\<lparr>ID := Hex (NewObjectID e)\<rparr> else s)
      in case upsert m e session of
           (Some err, m') \<Rightarrow> (Some err, m', session, w)
         | (None, m') \<Rightarrow>
             (case EncodeMulti (name session) (PString (ID session)) (Codecs m') of
                Inl err \<Rightarrow> (Some err, m', session, w)
              | Inr encoded \<Rightarrow>
                  (None, m', session, SetToken w (name session) encoded (Options session))))"
  by (simp add: Save_def)

lemma Save_upsert_error:
  "0 \<le> MaxAge (Options s) \<Longrightarrow>
   upsert m e (if ID s = '''' then s\<lparr>ID := Hex (NewObjectID e)\<rparr> else s) = (Some err, m') \<Longrightarrow>
   Save m e r w s = (Some err, m, if ID s = '''' then s\<lparr>ID := Hex (NewObjectID e)\<rparr> else s, w)"
  using upsert_Some [of m e _ err m']
  by (auto simp: Save_nonneg Let_def)

lemma Save_cookie_error:
  "0 \<le> MaxAge (Options s) \<Longrightarrow>
   upsert m e (if ID s = '''' then s\<lparr>ID := Hex (NewObjectID e)\<rparr> else s) = (None, m') \<Longrightarrow>
   EncodeMulti (name s) (PString (ID (if ID s = '''' then s\<lparr>ID := Hex (NewObjectID e)\<rparr> else s)))
     (Codecs m') = Inl err \<Longrightarrow>
   Save m e r w s = (Some err, m', if ID s = '''' then s\<lparr>ID := Hex (NewObjectID e)\<rparr> else s, w)"
  by (auto simp: Save_nonneg Let_def)

lemma Save_error_no_cookie:
  "0 \<le> MaxAge (Options s) \<Longrightarrow> Save m e r w s = (Some err, m', s', w') \<Longrightarrow> w' = w"
  by (auto simp: Save_nonneg Let_def split: prod.splits option.splits sum.splits)

lemma Save_None:
  "0 \<le> MaxAge (Options s) \<Longrightarrow> Save m e r w s = (None, m', s', w') \<Longrightarrow>
   s' = (if ID s = '''' then s\<lparr>ID := Hex (NewObjectID e)\<rparr> else s) \<and>
   upsert m e s' = (None, m') \<and>
   (\<exists>encoded. EncodeMulti (name s') (PString (ID s')) (Codecs m') = Inr encoded \<and>
               w' = SetToken w (name s') encoded (Options s'))"
  by (auto simp: Save_nonneg Let_def split: prod.splits option.splits sum.splits)

lemma Save_None_document:
  assumes "0 \<le> MaxAge (Options s)" and "Save m e r w s = (None, m', s', w')"
  shows "\<exists>oid t enc. ObjectIDFromHex (ID s') = Some oid \<and> modified_of e s = Inr t \<and>
           EncodeMulti (name s) (PValues (Values s)) (Codecs m) = Inr enc \<and> dbFault e = None \<and>
           m' = m\<lparr>collection := (collection m)(oid \<mapsto> persisted \<lparr>doc_ID = oid, Data = enc, Modified = t\<rparr>)\<rparr>"
proof -
  have s': "s' = (if ID s = '''' then s\<lparr>ID := Hex (NewObjectID e)\<rparr> else s)"
    and up: "upsert m e s' = (None, m')"
    using Save_None [OF assms] by blast+
  have "modified_of e s' = modified_of e s" "name s' = name s" "Values s' = Values s"
    using s' by (simp_all add: modified_of_def)
  with upsert_None [OF up] show ?thesis by simp
qed

lemma Save_store:
  assumes "0 \<le> MaxAge (Options s)" and "Save m e r w s = (err, m', s', w')"
  shows "s' = (if ID s = '''' then s\<lparr>ID := Hex (NewObjectID e)\<rparr> else s) \<and>
         ((\<exists>err'. err = Some err' \<and> m' = m \<and> upsert m e s' = (Some err', m)) \<or>
          upsert m e s' = (None, m'))"
proof -
  let ?session = "if ID s = '''' then s\<lparr>ID := Hex (NewObjectID e)\<rparr> else s"
  obtain uerr um where up: "upsert m e ?session = (uerr, um)" by (cases "upsert m e ?session")
  show ?thesis
  proof (cases uerr)
    case None
    with up assms show ?thesis
      by (auto simp: Save_nonneg Let_def split: sum.splits)
  next
    case (Some x)
    with up have "um = m" using upsert_Some by blast
    with Some up assms show ?thesis
      by (auto simp: Save_nonneg Let_def)
  qed
qed

lemma Save_written_document:
  assumes "0 \<le> MaxAge (Options s)" and "Save m e r w s = (err, m', s', w')"
      and "err = None \<or> m' \<noteq> m"
  shows "\<exists>oid t enc. ObjectIDFromHex (ID s') = Some oid \<and> modified_of e s = Inr t \<and>
           EncodeMulti (name s) (PValues (Values s)) (Codecs m) = Inr enc \<and> dbFault e = None \<and>
           m' = m\<lparr>collection := (collection m)(oid \<mapsto> persisted \<lparr>doc_ID = oid, Data = enc, Modified = t\<rparr>)\<rparr>"
proof -
  have s': "s' = (if ID s = '''' then s\<lparr>ID := Hex (NewObjectID e)\<rparr> else s)"
    and up: "upsert m e s' = (None, m')"
    using Save_store [OF assms(1,2)] assms(3) by auto
  have "modified_of e s' = modified_of e s" "name s' = name s" "Values s' = Values s"
    using s' by (simp_all add: modified_of_def)
  with upsert_None [OF up] show ?thesis by simp
qed

text \<open>
  Claim C10. \<^verbatim>\<open>Save\<close> writes into its session argument: a session with an empty identifier,
  saved with a max-age that is not negative, leaves the call with the minted identifier
  \<^verbatim>\<open>NewObjectID().Hex()\<close> and with its name, values, options and is-new flag as they were,
  whatever the call returns. The identifier is there before \<^verbatim>\<open>upsert\<close> runs and stays when
  \<^verbatim>\<open>upsert\<close> fails (the check of \<^verbatim>\<open>modified\<close>, the encoding of the values, the database)
  or when the encoding of the cookie fails; in both cases \<^verbatim>\<open>Save\<close> returns that error and
  the session with the identifier.
\<close>

theorem Save_minted_ID_stays:
  assumes "ID s = ''''" and "0 \<le> MaxAge (Options s)"
  shows "(\<forall>err m' s' w'. Save m e r w s = (err, m', s', w') \<longrightarrow>
            s' = s\<lparr>ID := Hex (NewObjectID e)\<rparr> \<and> name s' = name s \<and> Values s' = Values s \<and>
            Options s' = Options s \<and> IsNew s' = IsNew s)
       \<and> (\<forall>err m'. upsert m e (s\<lparr>ID := Hex (NewObjectID e)\<rparr>) = (Some err, m') \<longrightarrow>
            Save m e r w s = (Some err, m', s\<lparr>ID := Hex (NewObjectID e)\<rparr>, w))
       \<and> (\<forall>err m'. upsert m e (s\<lparr>ID := Hex (NewObjectID e)\<rparr>) = (None, m') \<and>
            EncodeMulti (name s) (PString (Hex (NewObjectID e))) (Codecs m') = Inl err \<longrightarrow>
            Save m e r w s = (Some err, m', s\<lparr>ID := Hex (NewObjectID e)\<rparr>, w))"
  using assms
  by (auto simp: Save_nonneg Let_def split: prod.splits option.splits sum.splits)

text \<open>
  The call fails on a \<^verbatim>\<open>modified\<close> that is no timestamp, and the session keeps the
  identifier.
\<close>

theorem Save_minted_ID_stays_witness:
  "ID (toy_session [VString ''modified'' \<mapsto> VInt 5]) = '''' \<and>
   0 \<le> MaxAge (Options (toy_session [VString ''modified'' \<mapsto> VInt 5])) \<and>
   Save (toy_store [VString ''modified'' \<mapsto> VInt 5]) toy_env Map.empty []
        (toy_session [VString ''modified'' \<mapsto> VInt 5]) =
     (Some ErrInvalidModified, toy_store [VString ''modified'' \<mapsto> VInt 5],
      (toy_session [VString ''modified'' \<mapsto> VInt 5])\<lparr>ID := ''0102030405060708090a0bff''\<rparr>, [])"
  using Save_minted_ID_stays [where s = "toy_session [VString ''modified'' \<mapsto> VInt 5]"
          and m = "toy_store [VString ''modified'' \<mapsto> VInt 5]" and e = toy_env
          and r = Map.empty and w = "[]"]
  by (simp add: toy_defs store_defs Hex_toy_oid ObjectIDFromHex_toy)

text \<open>
  Claim C7. A session with an empty identifier, saved with a max-age that is not negative,
  gets the identifier \<^verbatim>\<open>NewObjectID().Hex()\<close>: 24 characters, each a hexadecimal digit,
  which \<^verbatim>\<open>ObjectIDFromHex\<close> decodes to the 12 bytes it was made from. \<^verbatim>\<open>upsert\<close> runs on the
  session that has it: the store after the call is the one \<^verbatim>\<open>upsert\<close> leaves for that
  session, and after a call without error the document under the minted key is there.
  (\<^verbatim>\<open>primitive.ObjectID\<close> is an array of 12 bytes; the model states the length.)
\<close>

theorem Save_mints_hex_ID:
  assumes "ID s = ''''" and "0 \<le> MaxAge (Options s)" and "length (NewObjectID e) = 12"
  shows "case Save m e r w s of
           (err, m', s', w') \<Rightarrow>
             s' = s\<lparr>ID := Hex (NewObjectID e)\<rparr> \<and>
             length (ID s') = 24 \<and>
             set (ID s') \<subseteq> set ''0123456789abcdef'' \<and>
             ObjectIDFromHex (ID s') = Some (NewObjectID e) \<and>
             m' = snd (upsert m e (s\<lparr>ID := Hex (NewObjectID e)\<rparr>)) \<and>
             (err = None \<longrightarrow>
                (\<exists>d. collection m' (NewObjectID e) = Some d \<and> doc_ID d = NewObjectID e))"
proof -
  let ?s1 = "s\<lparr>ID := Hex (NewObjectID e)\<rparr>"
  have hex: "ObjectIDFromHex (ID ?s1) = Some (NewObjectID e)"
    using assms(3) by (simp add: ObjectIDFromHex_Hex)
  have len: "length (ID ?s1) = 24"
    using assms(3) by (simp add: length_Hex)
  have chars: "set (ID ?s1) \<subseteq> set ''0123456789abcdef''"
    using set_hex_EncodeToString [of "NewObjectID e"] by (simp add: Hex_def hextable_def)
  have written: "\<exists>d. collection m' (NewObjectID e) = Some d \<and> doc_ID d = NewObjectID e"
    if "upsert m e ?s1 = (None, m')" for m'
    using that hex
    by (auto simp: upsert_def ReplaceOne_def persisted_doc_ID split: sum.splits option.splits)
  show ?thesis
    using assms(1,2) hex len chars written
    by (auto simp: Save_nonneg Let_def split: prod.splits option.splits sum.splits)
qed

theorem Save_mints_hex_ID_witness:
  "ID (toy_session [VString ''foo'' \<mapsto> VString ''bar'']) = '''' \<and>
   0 \<le> MaxAge (Options (toy_session [VString ''foo'' \<mapsto> VString ''bar''])) \<and>
   length (NewObjectID toy_env) = 12 \<and>
   ID (fst (snd (snd (Save (toy_store [VString ''foo'' \<mapsto> VString ''bar'']) toy_env Map.empty []
        (toy_session [VString ''foo'' \<mapsto> VString ''bar'']))))) = ''0102030405060708090a0bff'' \<and>
   collection (fst (snd (Save (toy_store [VString ''foo'' \<mapsto> VString ''bar'']) toy_env Map.empty []
        (toy_session [VString ''foo'' \<mapsto> VString ''bar''])))) toy_oid = Some (toy_doc ''values'' 7000000)"
  using Save_mints_hex_ID [where s = "toy_session [VString ''foo'' \<mapsto> VString ''bar'']"
          and e = toy_env and m = "toy_store [VString ''foo'' \<mapsto> VString ''bar'']"
          and r = Map.empty and w = "[]"]
  by (simp add: toy_defs store_defs Hex_toy_oid ObjectIDFromHex_toy) (simp add: toy_oid_def)

text \<open>
  Claim C2, as stated: a session that was never saved (empty identifier), saved with a
  negative max-age, returns no error. It does not hold: \<^verbatim>\<open>delete\<close> cannot parse the empty
  identifier and returns \<^verbatim>\<open>ErrInvalidId\<close>, which \<^verbatim>\<open>Save\<close> returns.
\<close>

theorem Save_delete_unsaved_counterexample:
  "ID (toy_expired Map.empty) = '''' \<and> MaxAge (Options (toy_expired Map.empty)) < 0 \<and>
   fst (Save (toy_store Map.empty) toy_env Map.empty [] (toy_expired Map.empty)) = Some ErrInvalidId"
  by (simp add: toy_defs store_defs ObjectIDFromHex_empty)

text \<open>
  Claim C2, amended. For a session that was never saved (empty identifier), \<^verbatim>\<open>Save\<close> with a
  negative max-age returns the error \<^verbatim>\<open>ErrInvalidId\<close>, and a second call on the same session
  returns it again; neither call creates a document: the store, the session and the
  response are as they were (the cookie is not cleared either).
\<close>

theorem Save_delete_unsaved_invalid_id:
  assumes "ID s = ''''" and "MaxAge (Options s) < 0"
  shows "case Save m e r w s of
           (err1, m1, s1, w1) \<Rightarrow>
             err1 = Some ErrInvalidId \<and> m1 = m \<and> s1 = s \<and> w1 = w \<and>
             (case Save m1 e' r' w1 s1 of
                (err2, m2, s2, w2) \<Rightarrow>
                  err2 = Some ErrInvalidId \<and> collection m2 = collection m \<and> s2 = s \<and> w2 = w)"
  using assms by (simp add: Save_def delete_def ObjectIDFromHex_empty)

theorem Save_delete_unsaved_invalid_id_witness:
  "ID (toy_expired Map.empty) = '''' \<and> MaxAge (Options (toy_expired Map.empty)) < 0 \<and>
   Save (toy_store Map.empty) toy_env Map.empty [] (toy_expired Map.empty) =
     (Some ErrInvalidId, toy_store Map.empty, toy_expired Map.empty, [])"
  using Save_delete_unsaved_invalid_id [where s = "toy_expired Map.empty"
          and m = "toy_store Map.empty" and e = toy_env and r = Map.empty and w = "[]"
          and e' = toy_env and r' = Map.empty]
  by (simp add: toy_defs split: prod.splits)

text \<open>
  Claim C6. In a \<^verbatim>\<open>Save\<close> with a max-age that is not negative, every failure is returned
  and no cookie is set: when \<^verbatim>\<open>upsert\<close> fails (then the store is untouched too), in
  particular when the encoding of the values fails or the database reports an error, and
  when the encoding of the identifier for the cookie fails. A call that returns an error
  leaves the response as it was. If the response changed, the call returned no error,
  \<^verbatim>\<open>upsert\<close> had succeeded, and the one call of \<^verbatim>\<open>SetToken\<close> carries the encoded identifier.
\<close>

theorem Save_cookie_only_after_upsert:
  assumes "0 \<le> MaxAge (Options s)"
  shows "let session = (if ID s = '''' then s\<lparr>ID := Hex (NewObjectID e)\<rparr> else s) in
           (\<forall>err m'. upsert m e session = (Some err, m') \<longrightarrow>
              Save m e r w s = (Some err, m, session, w))
         \<and> (\<forall>err oid t. ObjectIDFromHex (ID session) = Some oid \<and> modified_of e session = Inr t \<and>
              EncodeMulti (name session) (PValues (Values session)) (Codecs m) = Inl err \<longrightarrow>
              Save m e r w s = (Some err, m, session, w))
         \<and> (\<forall>err oid t enc. ObjectIDFromHex (ID session) = Some oid \<and>
              modified_of e session = Inr t \<and>
              EncodeMulti (name session) (PValues (Values session)) (Codecs m) = Inr enc \<and>
              dbFault e = Some err \<longrightarrow>
              Save m e r w s = (Some err, m, session, w))
         \<and> (\<forall>err m'. upsert m e session = (None, m') \<and>
              EncodeMulti (name session) (PString (ID session)) (Codecs m') = Inl err \<longrightarrow>
              Save m e r w s = (Some err, m', session, w))
         \<and> (\<forall>err m' s' w'. Save m e r w s = (Some err, m', s', w') \<longrightarrow> w' = w)
         \<and> (\<forall>err m' s' w'. Save m e r w s = (err, m', s', w') \<and> w' \<noteq> w \<longrightarrow>
              err = None \<and> upsert m e session = (None, m') \<and>
              (\<exists>encoded. EncodeMulti (name session) (PString (ID session)) (Codecs m') = Inr encoded \<and>
                          w' = SetToken w (name session) encoded (Options session)))"
proof -
  let ?session = "if ID s = '''' then s\<lparr>ID := Hex (NewObjectID e)\<rparr> else s"
  have 1: "Save m e r w s = (Some err, m, ?session, w)"
    if "upsert m e ?session = (Some err, m')" for err m'
    using Save_upsert_error [OF assms that] .
  have 2: "Save m e r w s = (Some err, m, ?session, w)"
    if "ObjectIDFromHex (ID ?session) = Some oid" and "modified_of e ?session = Inr t"
      and "EncodeMulti (name ?session) (PValues (Values ?session)) (Codecs m) = Inl err"
    for err oid t
    using 1 upsert_encode_error [OF that] by blast
  have 3: "Save m e r w s = (Some err, m, ?session, w)"
    if "ObjectIDFromHex (ID ?session) = Some oid" and "modified_of e ?session = Inr t"
      and "EncodeMulti (name ?session) (PValues (Values ?session)) (Codecs m) = Inr enc"
      and "dbFault e = Some err"
    for err oid t enc
    using 1 upsert_db_error [OF that] by blast
  have 4: "Save m e r w s = (Some err, m', ?session, w)"
    if "upsert m e ?session = (None, m')"
      and "EncodeMulti (name ?session) (PString (ID ?session)) (Codecs m') = Inl err"
    for err m'
  proof -
    have "name ?session = name s" by simp
    with that show ?thesis using Save_cookie_error [OF assms, of m e m' err r w] by simp
  qed
  have 5: "w' = w" if "Save m e r w s = (Some err, m', s', w')" for err m' s' w'
    using Save_error_no_cookie [OF assms that] .
  have 6: "err = None \<and> upsert m e ?session = (None, m') \<and>
           (\<exists>encoded. EncodeMulti (name ?session) (PString (ID ?session)) (Codecs m') = Inr encoded \<and>
                       w' = SetToken w (name ?session) encoded (Options ?session))"
    if "Save m e r w s = (err, m', s', w')" and "w' \<noteq> w" for err m' s' w'
  proof (cases err)
    case None
    with that(1) show ?thesis using Save_None [OF assms, of m e r w m' s' w'] by auto
  next
    case (Some x)
    with that show ?thesis using 5 by blast
  qed
  show ?thesis
    unfolding Let_def using 1 2 3 4 5 6 by blast
qed

text \<open>
  Four runs: the database is out of reach; the codec cannot encode the values; the codec
  cannot encode the identifier (the document is written, the cookie is not set); and a
  save that works, which sets the cookie last.
\<close>

theorem Save_cookie_only_after_upsert_witness:
  "0 \<le> MaxAge (Options (toy_session Map.empty)) \<and>
   Save (toy_store Map.empty) toy_env_down Map.empty [] (toy_session Map.empty) =
     (Some (DriverError ''connection refused''), toy_store Map.empty,
      (toy_session Map.empty)\<lparr>ID := ''0102030405060708090a0bff''\<rparr>, []) \<and>
   Save (toy_store Map.empty) toy_env Map.empty [] (toy_session [VString ''foo'' \<mapsto> VString ''bar'']) =
     (Some (MultiError [CodecError ''toy: unknown values'']), toy_store Map.empty,
      (toy_session [VString ''foo'' \<mapsto> VString ''bar''])\<lparr>ID := ''0102030405060708090a0bff''\<rparr>, []) \<and>
   Save (mute_store Map.empty) toy_env Map.empty [] (toy_session Map.empty) =
     (Some (MultiError [CodecError ''securecookie: the value is too long'']),
      (mute_store Map.empty)\<lparr>collection := [toy_oid \<mapsto> toy_doc ''values'' 7000000]\<rparr>,
      (toy_session Map.empty)\<lparr>ID := ''0102030405060708090a0bff''\<rparr>, []) \<and>
   Save (toy_store Map.empty) toy_env Map.empty [] (toy_session Map.empty) =
     (None, (toy_store Map.empty)\<lparr>collection := [toy_oid \<mapsto> toy_doc ''values'' 7000000]\<rparr>,
      (toy_session Map.empty)\<lparr>ID := ''0102030405060708090a0bff''\<rparr>,
      [(''sid'', ''id:0102030405060708090a0bff'', toy_Options)])"
  using Save_cookie_only_after_upsert [where s = "toy_session Map.empty" and m = "toy_store Map.empty"
          and e = toy_env_down and r = Map.empty and w = "[]"]
  by (simp add: toy_defs store_defs Hex_toy_oid ObjectIDFromHex_toy)

text \<open>
  Claim C8, as stated: when the values hold a timestamp \<open>T\<close> under the key \<^verbatim>\<open>modified\<close>, the
  persisted document's \<^verbatim>\<open>Modified\<close> equals \<open>T\<close> exactly. It does not hold for a \<open>T\<close> that is
  not a whole number of milliseconds: the document holds a BSON datetime, so the save
  below, which returns no error, persists 42123000000 for the timestamp 42123456789.
\<close>

theorem Save_modified_field_counterexample:
  "0 \<le> MaxAge (Options (toy_session [VString ''modified'' \<mapsto> VTime 42123456789])) \<and>
   Values (toy_session [VString ''modified'' \<mapsto> VTime 42123456789]) (VString ''modified'') =
     Some (VTime 42123456789) \<and>
   Save (toy_store [VString ''modified'' \<mapsto> VTime 42123456789]) toy_env Map.empty []
        (toy_session [VString ''modified'' \<mapsto> VTime 42123456789]) =
     (None,
      (toy_store [VString ''modified'' \<mapsto> VTime 42123456789])
        \<lparr>collection := [toy_oid \<mapsto> toy_doc ''values'' 42123000000]\<rparr>,
      (toy_session [VString ''modified'' \<mapsto> VTime 42123456789])\<lparr>ID := ''0102030405060708090a0bff''\<rparr>,
      [(''sid'', ''id:0102030405060708090a0bff'', toy_Options)]) \<and>
   Modified (toy_doc ''values'' 42123000000) \<noteq> 42123456789"
  by (simp add: toy_defs store_defs Hex_toy_oid ObjectIDFromHex_toy)

text \<open>
  Claim C8, amended. In a save (\<^verbatim>\<open>Save\<close> on its \<^verbatim>\<open>upsert\<close> path, the max-age not negative):
  if the values hold a timestamp \<open>T\<close> under the key \<^verbatim>\<open>modified\<close>, the document the save
  persists (the save returned no error, or it changed the store) has as \<^verbatim>\<open>Modified\<close> the BSON
  datetime of \<open>T\<close>, not the clock: for a \<open>T\<close> whose milliseconds fit 64 bits that is \<open>T\<close> cut
  down to the whole millisecond, and \<open>T\<close> exactly when \<open>T\<close> is a whole number of
  milliseconds. If the key holds anything else, \<^verbatim>\<open>Save\<close> returns an error
  (\<^verbatim>\<open>invalid modified value\<close>, or \<^verbatim>\<open>ErrInvalidId\<close> when the identifier does not parse, which
  is checked first) and the store and the response are as before. If the key is absent,
  \<^verbatim>\<open>Modified\<close> of the persisted document is the clock of the call, cut in the same way.
\<close>

theorem Save_modified_field:
  assumes "0 \<le> MaxAge (Options s)"
  shows "(\<forall>T err m' s' w'. Values s (VString ''modified'') = Some (VTime T) \<and>
            Save m e r w s = (err, m', s', w') \<and> (err = None \<or> m' \<noteq> m) \<longrightarrow>
            (\<exists>oid d. ObjectIDFromHex (ID s') = Some oid \<and> collection m' oid = Some d \<and>
                      Modified d = DateTime_Time (NewDateTimeFromTime T) \<and>
                      (fits_DateTime T \<longrightarrow>
                         Modified d = T div 1000000 * 1000000 \<and>
                         Modified d \<le> T \<and> T < Modified d + 1000000) \<and>
                      (fits_DateTime T \<and> T mod 1000000 = 0 \<longrightarrow> Modified d = T)))
       \<and> (\<forall>v. Values s (VString ''modified'') = Some v \<and> (\<forall>T. v \<noteq> VTime T) \<longrightarrow>
            (\<exists>err s'. Save m e r w s = (Some err, m, s', w) \<and>
                       (err = ErrInvalidModified \<or> err = ErrInvalidId)))
       \<and> (\<forall>err m' s' w'. Values s (VString ''modified'') = None \<and>
            Save m e r w s = (err, m', s', w') \<and> (err = None \<or> m' \<noteq> m) \<longrightarrow>
            (\<exists>oid d. ObjectIDFromHex (ID s') = Some oid \<and> collection m' oid = Some d \<and>
                      Modified d = DateTime_Time (NewDateTimeFromTime (Now e)) \<and>
                      (fits_DateTime (Now e) \<longrightarrow>
                         Modified d = Now e div 1000000 * 1000000 \<and>
                         Modified d \<le> Now e \<and> Now e < Modified d + 1000000)))"
proof -
  let ?session = "if ID s = '''' then s\<lparr>ID := Hex (NewObjectID e)\<rparr> else s"
  have written: "\<exists>oid d. ObjectIDFromHex (ID s') = Some oid \<and> collection m' oid = Some d \<and>
                         Modified d = DateTime_Time (NewDateTimeFromTime t)"
    if "modified_of e s = Inr t" and "Save m e r w s = (err, m', s', w')"
      and "err = None \<or> m' \<noteq> m"
    for t err m' s' w'
    using Save_written_document [OF assms that(2,3)] that(1)
    by (auto simp: Modified_persisted)
  have cut: "DateTime_Time (NewDateTimeFromTime t) = t div 1000000 * 1000000 \<and>
             DateTime_Time (NewDateTimeFromTime t) \<le> t \<and>
             t < DateTime_Time (NewDateTimeFromTime t) + 1000000"
    if "fits_DateTime t" for t
    by (simp add: DateTime_roundtrip [OF that] DateTime_cut_bounds)
  have pinned: "\<exists>oid d. ObjectIDFromHex (ID s') = Some oid \<and> collection m' oid = Some d \<and>
                   Modified d = DateTime_Time (NewDateTimeFromTime T) \<and>
                   (fits_DateTime T \<longrightarrow>
                      Modified d = T div 1000000 * 1000000 \<and>
                      Modified d \<le> T \<and> T < Modified d + 1000000) \<and>
                   (fits_DateTime T \<and> T mod 1000000 = 0 \<longrightarrow> Modified d = T)"
    if "Values s (VString ''modified'') = Some (VTime T)" and "Save m e r w s = (err, m', s', w')"
      and "err = None \<or> m' \<noteq> m"
    for T err m' s' w'
    using written [OF modified_of_pinned [OF that(1)] that(2,3)] cut [of T]
          DateTime_roundtrip_whole [of T]
    by auto
  have stamped: "\<exists>oid d. ObjectIDFromHex (ID s') = Some oid \<and> collection m' oid = Some d \<and>
                   Modified d = DateTime_Time (NewDateTimeFromTime (Now e)) \<and>
                   (fits_DateTime (Now e) \<longrightarrow>
                      Modified d = Now e div 1000000 * 1000000 \<and>
                      Modified d \<le> Now e \<and> Now e < Modified d + 1000000)"
    if "Values s (VString ''modified'') = None" and "Save m e r w s = (err, m', s', w')"
      and "err = None \<or> m' \<noteq> m"
    for err m' s' w'
    using written [OF modified_of_absent [OF that(1)] that(2,3)] cut [of "Now e"]
    by auto
  have invalid: "\<exists>err s'. Save m e r w s = (Some err, m, s', w) \<and>
                          (err = ErrInvalidModified \<or> err = ErrInvalidId)"
    if "Values s (VString ''modified'') = Some v" and "\<forall>T. v \<noteq> VTime T" for v
  proof -
    have "Values ?session (VString ''modified'') = Some v" using that(1) by simp
    then have "modified_of e ?session = Inl ErrInvalidModified"
      using that(2) by (rule modified_of_invalid)
    then have "upsert m e ?session =
        (Some (if ObjectIDFromHex (ID ?session) = None then ErrInvalidId else ErrInvalidModified), m)"
      by (rule upsert_invalid_modified)
    from Save_upsert_error [OF assms this] show ?thesis by auto
  qed
  show ?thesis using pinned stamped invalid by blast
qed

text \<open>
  Three saves: a timestamp of whole milliseconds, kept as it is; a \<^verbatim>\<open>modified\<close> that is a
  number; and no \<^verbatim>\<open>modified\<close>, where the clock 7000123 is persisted as 7000000.
\<close>

theorem Save_modified_field_witness:
  "0 \<le> MaxAge (Options (toy_session [VString ''modified'' \<mapsto> VTime 42000000])) \<and>
   Values (toy_session [VString ''modified'' \<mapsto> VTime 42000000]) (VString ''modified'') =
     Some (VTime 42000000) \<and>
   fits_DateTime 42000000 \<and>
   Save (toy_store [VString ''modified'' \<mapsto> VTime 42000000]) toy_env Map.empty []
        (toy_session [VString ''modified'' \<mapsto> VTime 42000000]) =
     (None,
      (toy_store [VString ''modified'' \<mapsto> VTime 42000000])
        \<lparr>collection := [toy_oid \<mapsto> toy_doc ''values'' 42000000]\<rparr>,
      (toy_session [VString ''modified'' \<mapsto> VTime 42000000])\<lparr>ID := ''0102030405060708090a0bff''\<rparr>,
      [(''sid'', ''id:0102030405060708090a0bff'', toy_Options)]) \<and>
   Modified (toy_doc ''values'' 42000000) = 42000000 \<and>
   Values (toy_session [VString ''modified'' \<mapsto> VInt 5]) (VString ''modified'') = Some (VInt 5) \<and>
   Save (toy_store [VString ''modified'' \<mapsto> VInt 5]) toy_env Map.empty []
        (toy_session [VString ''modified'' \<mapsto> VInt 5]) =
     (Some ErrInvalidModified, toy_store [VString ''modified'' \<mapsto> VInt 5],
      (toy_session [VString ''modified'' \<mapsto> VInt 5])\<lparr>ID := ''0102030405060708090a0bff''\<rparr>, []) \<and>
   Values (toy_session Map.empty) (VString ''modified'') = None \<and>
   Now toy_env = 7000123 \<and>
   fits_DateTime 7000123 \<and>
   Save (toy_store Map.empty) toy_env Map.empty [] (toy_session Map.empty) =
     (None, (toy_store Map.empty)\<lparr>collection := [toy_oid \<mapsto> toy_doc ''values'' 7000000]\<rparr>,
      (toy_session Map.empty)\<lparr>ID := ''0102030405060708090a0bff''\<rparr>,
      [(''sid'', ''id:0102030405060708090a0bff'', toy_Options)]) \<and>
   Modified (toy_doc ''values'' 7000000) = 7000000"
  using Save_modified_field [where s = "toy_session [VString ''modified'' \<mapsto> VTime 42000000]"
          and m = "toy_store [VString ''modified'' \<mapsto> VTime 42000000]" and e = toy_env
          and r = Map.empty and w = "[]"]
  by (simp add: toy_defs store_defs fits_DateTime_def Hex_toy_oid ObjectIDFromHex_toy)

section \<open>New\<close>

lemma New_no_token:
  "GetToken (Token m) r n = Inl errToken \<Longrightarrow> New m e r n = (fresh_session m n, None)"
  by (simp add: New_def)

lemma New_decode_error:
  "GetToken (Token m) r n = Inr cook \<Longrightarrow> DecodeMulti n cook string_dst (Codecs m) = Inl err \<Longrightarrow>
   New m e r n = (fresh_session m n, Some err)"
  by (simp add: New_def)

lemma New_load_error:
  "GetToken (Token m) r n = Inr cook \<Longrightarrow> DecodeMulti n cook string_dst (Codecs m) = Inr sid \<Longrightarrow>
   load m e ((fresh_session m n)\<lparr>ID := sid\<rparr>) = (Some err, s') \<Longrightarrow>
   New m e r n = (s', None)"
  by (simp add: New_def)

lemma New_loaded:
  assumes "GetToken (Token m) r n = Inr cook"
      and "DecodeMulti n cook string_dst (Codecs m) = Inr sid"
      and "load m e ((fresh_session m n)\<lparr>ID := sid\<rparr>) = (None, s')"
  shows "New m e r n = (s'\<lparr>IsNew := False\<rparr>, None)"
  using assms by (simp add: New_def)

lemma load_found:
  assumes "ObjectIDFromHex (ID s) = Some oid" and "dbFault e = None"
      and "collection m oid = Some d"
      and "DecodeMulti (name s) (Data d) values_dst (Codecs m) = Inr v"
  shows "load m e s = (None, s\<lparr>Values := Values s ++ v\<rparr>)"
  using assms by (simp add: load_def FindOne_def)

text \<open>
  Claim C5. When the request carries a token and every codec of the store fails to decode
  it into an identifier, \<^verbatim>\<open>New\<close> returns the error of \<^verbatim>\<open>DecodeMulti\<close> together with the
  fresh session (is-new set, no identifier, no values). When the transport reports no
  token, \<^verbatim>\<open>New\<close> returns the fresh session and no error.
\<close>

theorem New_decode_error_surfaced:
  "(\<forall>cook. GetToken (Token m) r n = Inr cook \<and>
            (\<forall>c \<in> set (Codecs m). \<exists>err. Decode c n cook string_dst = Inl err) \<longrightarrow>
            (\<exists>err. New m e r n = (fresh_session m n, Some err) \<and>
                   DecodeMulti n cook string_dst (Codecs m) = Inl err))
   \<and> (\<forall>errToken. GetToken (Token m) r n = Inl errToken \<longrightarrow>
                   New m e r n = (fresh_session m n, None))
   \<and> IsNew (fresh_session m n) \<and> Values (fresh_session m n) = Map.empty
   \<and> ID (fresh_session m n) = ''''"
proof -
  have "\<exists>err. New m e r n = (fresh_session m n, Some err) \<and>
              DecodeMulti n cook string_dst (Codecs m) = Inl err"
    if tok: "GetToken (Token m) r n = Inr cook"
      and fail: "\<forall>c \<in> set (Codecs m). \<exists>err. Decode c n cook string_dst = Inl err" for cook
  proof -
    obtain err where "DecodeMulti n cook string_dst (Codecs m) = Inl err"
      using DecodeMulti_all_fail [OF fail] by blast
    with tok show ?thesis by (simp add: New_decode_error)
  qed
  then show ?thesis
    by (simp add: New_no_token fresh_session_def)
qed

text \<open>A forged cookie, and a request without a cookie.\<close>

theorem New_decode_error_surfaced_witness:
  "GetToken (Token (toy_store Map.empty)) [''sid'' \<mapsto> ''forged''] ''sid'' = Inr ''forged'' \<and>
   Decode (toy_codec Map.empty) ''sid'' ''forged'' string_dst = Inl (CodecError ''toy: not a token'') \<and>
   New (toy_store Map.empty) toy_env [''sid'' \<mapsto> ''forged''] ''sid'' =
     (fresh_session (toy_store Map.empty) ''sid'', Some (MultiError [CodecError ''toy: not a token''])) \<and>
   GetToken (Token (toy_store Map.empty)) Map.empty ''sid'' =
     Inl (TokenError ''http: named cookie not present'') \<and>
   New (toy_store Map.empty) toy_env Map.empty ''sid'' =
     (fresh_session (toy_store Map.empty) ''sid'', None)"
  using New_decode_error_surfaced [where m = "toy_store Map.empty" and e = toy_env
          and r = "[''sid'' \<mapsto> ''forged'']" and n = "''sid''"]
        New_decode_error_surfaced [where m = "toy_store Map.empty" and e = toy_env
          and r = Map.empty and n = "''sid''"]
  by (simp add: toy_defs store_defs)

text \<open>
  Claim C3, as stated: when the token decodes to an identifier that \<^verbatim>\<open>ObjectIDFromHex\<close>
  rejects, \<^verbatim>\<open>New\<close> returns the error \<^verbatim>\<open>ErrInvalidId\<close>. It does not hold: \<^verbatim>\<open>load\<close> returns
  \<^verbatim>\<open>ErrInvalidId\<close>, and \<^verbatim>\<open>New\<close> sets every error of \<^verbatim>\<open>load\<close> to \<^verbatim>\<open>nil\<close>.
\<close>

theorem New_invalid_id_counterexample:
  "GetToken (Token (toy_store Map.empty)) [''sid'' \<mapsto> ''id:xyz''] ''sid'' = Inr ''id:xyz'' \<and>
   DecodeMulti ''sid'' ''id:xyz'' string_dst (Codecs (toy_store Map.empty)) = Inr ''xyz'' \<and>
   ObjectIDFromHex ''xyz'' = None \<and>
   snd (New (toy_store Map.empty) toy_env [''sid'' \<mapsto> ''id:xyz''] ''sid'') \<noteq> Some ErrInvalidId"
  by (simp add: toy_defs store_defs ObjectIDFromHex_xyz)

text \<open>
  Claim C3, amended. When the token decodes to an identifier that \<^verbatim>\<open>ObjectIDFromHex\<close> rejects,
  \<^verbatim>\<open>load\<close> fails with \<^verbatim>\<open>ErrInvalidId\<close> and \<^verbatim>\<open>New\<close> returns no error, together with a session
  that is new and has no values (its identifier is the decoded one).
\<close>

theorem New_invalid_id_swallowed:
  assumes "GetToken (Token m) r n = Inr cook"
      and "DecodeMulti n cook string_dst (Codecs m) = Inr sid"
      and "ObjectIDFromHex sid = None"
  shows "New m e r n = ((fresh_session m n)\<lparr>ID := sid\<rparr>, None) \<and>
         load m e ((fresh_session m n)\<lparr>ID := sid\<rparr>) = (Some ErrInvalidId, (fresh_session m n)\<lparr>ID := sid\<rparr>) \<and>
         IsNew (fst (New m e r n)) \<and> Values (fst (New m e r n)) = Map.empty"
proof -
  have l: "load m e ((fresh_session m n)\<lparr>ID := sid\<rparr>) =
             (Some ErrInvalidId, (fresh_session m n)\<lparr>ID := sid\<rparr>)"
    using assms(3) by (simp add: load_def)
  have "New m e r n = ((fresh_session m n)\<lparr>ID := sid\<rparr>, None)"
    using New_load_error [OF assms(1,2) l] .
  with l show ?thesis by (simp add: fresh_session_def)
qed

theorem New_invalid_id_swallowed_witness:
  "GetToken (Token (toy_store Map.empty)) [''sid'' \<mapsto> ''id:xyz''] ''sid'' = Inr ''id:xyz'' \<and>
   DecodeMulti ''sid'' ''id:xyz'' string_dst (Codecs (toy_store Map.empty)) = Inr ''xyz'' \<and>
   ObjectIDFromHex ''xyz'' = None \<and>
   New (toy_store Map.empty) toy_env [''sid'' \<mapsto> ''id:xyz''] ''sid'' =
     ((fresh_session (toy_store Map.empty) ''sid'')\<lparr>ID := ''xyz''\<rparr>, None)"
  using New_invalid_id_swallowed [where m = "toy_store Map.empty" and e = toy_env
          and r = "[''sid'' \<mapsto> ''id:xyz'']" and n = "''sid''" and cook = "''id:xyz''"
          and sid = "''xyz''"]
  by (simp add: toy_defs Decode_def ObjectIDFromHex_xyz)



section \<open>Saving, then loading\<close>

text \<open>
  Claim C1. Let \<^verbatim>\<open>Save\<close>, with a max-age that is not negative, return no error for a session
  with values \<open>V\<close>, and let a later request carry, under the session's name, the token of
  the \<^verbatim>\<open>SetToken\<close> call that \<^verbatim>\<open>Save\<close> made. Then \<^verbatim>\<open>New\<close> on the store as \<^verbatim>\<open>Save\<close> left it
  returns no error and a session whose values are \<open>V\<close>, whose is-new flag is false and whose
  identifier is the saved one. The collaborators are taken to work: the codecs decode what
  they encoded for this identifier and for \<open>V\<close>, and the database answers the \<^verbatim>\<open>FindOne\<close>.
\<close>

theorem Save_then_New_roundtrip:
  assumes saved: "Save m e r w s = (None, m', s', w')"
      and nonneg: "0 \<le> MaxAge (Options s)"
      and carried: "GetToken (Token m') r' (name s) = Inr (fst (snd (last w')))"
      and ids: "decodes_back (Codecs m) (name s) (PString (ID s'))"
      and vals: "decodes_back (Codecs m) (name s) (PValues (Values s))"
      and reachable: "dbFault e' = None"
  shows "\<exists>s''. New m' e' r' (name s) = (s'', None) \<and> Values s'' = Values s \<and> \<not> IsNew s'' \<and>
               ID s'' = ID s' \<and> name s'' = name s"
proof -
  from Save_None [OF nonneg saved] obtain encoded where
        s': "name s' = name s"
    and tok: "EncodeMulti (name s) (PString (ID s')) (Codecs m') = Inr encoded"
    and w': "w' = SetToken w (name s) encoded (Options s')"
    by (auto split: if_splits)
  from Save_None_document [OF nonneg saved] obtain oid t enc where
        oid: "ObjectIDFromHex (ID s') = Some oid"
    and enc: "EncodeMulti (name s) (PValues (Values s)) (Codecs m) = Inr enc"
    and m': "m' = m\<lparr>collection := (collection m)(oid \<mapsto> persisted \<lparr>doc_ID = oid, Data = enc, Modified = t\<rparr>)\<rparr>"
    by blast
  have codecs: "Codecs m' = Codecs m" using m' by simp
  have cook: "GetToken (Token m') r' (name s) = Inr encoded"
    using carried w' by (simp add: SetToken_def)
  have sid: "DecodeMulti (name s) encoded string_dst (Codecs m') = Inr (ID s')"
    using ids tok codecs by (simp add: decodes_back_def)
  have data: "DecodeMulti (name s) enc values_dst (Codecs m') = Inr (Values s)"
    using vals enc codecs by (simp add: decodes_back_def)
  let ?fresh = "(fresh_session m' (name s))\<lparr>ID := ID s'\<rparr>"
  have "load m' e' ?fresh = (None, ?fresh\<lparr>Values := Values ?fresh ++ Values s\<rparr>)"
  proof (rule load_found [where oid = oid])
    show "ObjectIDFromHex (ID ?fresh) = Some oid" using oid by simp
    show "dbFault e' = None" by (rule reachable)
    show "collection m' oid = Some (persisted \<lparr>doc_ID = oid, Data = enc, Modified = t\<rparr>)"
      using m' by simp
    show "DecodeMulti (name ?fresh) (Data (persisted \<lparr>doc_ID = oid, Data = enc, Modified = t\<rparr>)) values_dst
            (Codecs m') = Inr (Values s)"
      using data by (simp add: fresh_session_def persisted_Data)
  qed
  from New_loaded [OF cook sid this]
  show ?thesis by (simp add: fresh_session_def)
qed

text \<open>The values \<^verbatim>\<open>{"foo": "bar"}\<close>, saved and loaded through the cookie jar.\<close>

theorem Save_then_New_roundtrip_witness:
  "Save (toy_store [VString ''foo'' \<mapsto> VString ''bar'']) toy_env Map.empty []
        (toy_session [VString ''foo'' \<mapsto> VString ''bar'']) =
     (None,
      (toy_store [VString ''foo'' \<mapsto> VString ''bar''])\<lparr>collection := [toy_oid \<mapsto> toy_doc ''values'' 7000000]\<rparr>,
      (toy_session [VString ''foo'' \<mapsto> VString ''bar''])\<lparr>ID := ''0102030405060708090a0bff''\<rparr>,
      [(''sid'', ''id:0102030405060708090a0bff'', toy_Options)]) \<and>
   0 \<le> MaxAge (Options (toy_session [VString ''foo'' \<mapsto> VString ''bar''])) \<and>
   GetToken (Token (toy_store [VString ''foo'' \<mapsto> VString ''bar'']))
      [''sid'' \<mapsto> ''id:0102030405060708090a0bff''] ''sid'' = Inr ''id:0102030405060708090a0bff'' \<and>
   decodes_back (Codecs (toy_store [VString ''foo'' \<mapsto> VString ''bar''])) ''sid''
      (PString ''0102030405060708090a0bff'') \<and>
   decodes_back (Codecs (toy_store [VString ''foo'' \<mapsto> VString ''bar''])) ''sid''
      (PValues [VString ''foo'' \<mapsto> VString ''bar'']) \<and>
   dbFault toy_env = None \<and>
   snd (New ((toy_store [VString ''foo'' \<mapsto> VString ''bar''])\<lparr>collection := [toy_oid \<mapsto> toy_doc ''values'' 7000000]\<rparr>)
            toy_env [''sid'' \<mapsto> ''id:0102030405060708090a0bff''] ''sid'') = None \<and>
   Values (fst (New ((toy_store [VString ''foo'' \<mapsto> VString ''bar''])\<lparr>collection := [toy_oid \<mapsto> toy_doc ''values'' 7000000]\<rparr>)
                    toy_env [''sid'' \<mapsto> ''id:0102030405060708090a0bff''] ''sid'')) =
     [VString ''foo'' \<mapsto> VString ''bar''] \<and>
   IsNew (fst (New ((toy_store [VString ''foo'' \<mapsto> VString ''bar''])\<lparr>collection := [toy_oid \<mapsto> toy_doc ''values'' 7000000]\<rparr>)
                   toy_env [''sid'' \<mapsto> ''id:0102030405060708090a0bff''] ''sid'')) = False"
proof -
  let ?V = "[VString ''foo'' \<mapsto> VString ''bar'']"
  let ?m' = "(toy_store ?V)\<lparr>collection := [toy_oid \<mapsto> toy_doc ''values'' 7000000]\<rparr>"
  let ?s' = "(toy_session ?V)\<lparr>ID := ''0102030405060708090a0bff''\<rparr>"
  let ?w' = "[(''sid'', ''id:0102030405060708090a0bff'', toy_Options)]"
  let ?r' = "[''sid'' \<mapsto> ''id:0102030405060708090a0bff'']"
  have saved: "Save (toy_store ?V) toy_env Map.empty [] (toy_session ?V) = (None, ?m', ?s', ?w')"
    by (simp add: toy_defs store_defs Hex_toy_oid ObjectIDFromHex_toy)
  have nonneg: "0 \<le> MaxAge (Options (toy_session ?V))"
    by (simp add: toy_defs)
  have carried: "GetToken (Token ?m') ?r' (name (toy_session ?V)) = Inr (fst (snd (last ?w')))"
    by (simp add: toy_defs)
  have ids: "decodes_back (Codecs (toy_store ?V)) (name (toy_session ?V)) (PString (ID ?s'))"
    by (simp add: toy_store_def decodes_back_toy)
  have vals: "decodes_back (Codecs (toy_store ?V)) (name (toy_session ?V)) (PValues (Values (toy_session ?V)))"
    by (simp add: toy_store_def decodes_back_toy)
  have reachable: "dbFault toy_env = None"
    by (simp add: toy_env_def)
  from Save_then_New_roundtrip [OF saved nonneg carried ids vals reachable]
  obtain s'' where "New ?m' toy_env ?r' (name (toy_session ?V)) = (s'', None)"
    and "Values s'' = Values (toy_session ?V)" and "\<not> IsNew s''"
    by blast
  then have "snd (New ?m' toy_env ?r' ''sid'') = None"
    and "Values (fst (New ?m' toy_env ?r' ''sid'')) = ?V"
    and "IsNew (fst (New ?m' toy_env ?r' ''sid'')) = False"
    by (simp_all add: toy_session_def)
  with saved nonneg carried ids vals reachable show ?thesis
    by (simp add: toy_defs)
qed

section \<open>MaxAge\<close>

lemma SecureCookie_MaxAge_maxAge:
  "Codec_maxAge (SecureCookie_MaxAge age c) = (if Codec_maxAge c = None then None else Some age)"
  by (cases c) simp_all

lemma SecureCookie_MaxAge_other: "Codec_maxAge c = None \<Longrightarrow> SecureCookie_MaxAge age c = c"
  by (cases c) simp_all

text \<open>
  Claim C9, as stated: \<^verbatim>\<open>MaxAge(N)\<close> updates the expiry window of every codec of the list to
  \<open>N\<close>. It does not hold for a codec that is not a \<^verbatim>\<open>*securecookie.SecureCookie\<close>: the type
  assertion of the loop skips it, and the codec list of such a store is left as it was.
\<close>

theorem MaxAge_every_codec_counterexample:
  "Codecs (MongoDBStore_MaxAge (toy_store Map.empty) 60) = Codecs (toy_store Map.empty) \<and>
   Codec_maxAge (Codecs (MongoDBStore_MaxAge (toy_store Map.empty) 60) ! 0) \<noteq> Some 60"
  by (simp add: MongoDBStore_MaxAge_def toy_store_def toy_codec_def)

text \<open>
  Claim C9, amended. For every integer \<open>N\<close>, \<^verbatim>\<open>MaxAge(N)\<close> sets the store's default
  \<^verbatim>\<open>Options.MaxAge\<close> to \<open>N\<close> and sets the expiry window of every codec of the list that is a
  \<^verbatim>\<open>SecureCookie\<close> to \<open>N\<close>; a codec of another type is left as it is. When all codecs are
  \<^verbatim>\<open>SecureCookie\<close>s, every codec's window is \<open>N\<close> afterwards. The token transport and the
  collection are untouched.
\<close>

theorem MaxAge_sets_SecureCookies:
  "MaxAge (store_Options (MongoDBStore_MaxAge m N)) = N
   \<and> length (Codecs (MongoDBStore_MaxAge m N)) = length (Codecs m)
   \<and> (\<forall>i < length (Codecs m).
        (case Codecs m ! i of
           SecureCookie old enc dec \<Rightarrow>
             Codecs (MongoDBStore_MaxAge m N) ! i = SecureCookie N enc dec
         | OtherCodec enc dec \<Rightarrow>
             Codecs (MongoDBStore_MaxAge m N) ! i = OtherCodec enc dec))
   \<and> (\<forall>i < length (Codecs m).
        (Codec_maxAge (Codecs m ! i) \<noteq> None \<longrightarrow>
           Codec_maxAge (Codecs (MongoDBStore_MaxAge m N) ! i) = Some N) \<and>
        (Codec_maxAge (Codecs m ! i) = None \<longrightarrow>
           Codecs (MongoDBStore_MaxAge m N) ! i = Codecs m ! i))
   \<and> ((\<forall>c \<in> set (Codecs m). Codec_maxAge c \<noteq> None) \<longrightarrow>
        (\<forall>c \<in> set (Codecs (MongoDBStore_MaxAge m N)). Codec_maxAge c = Some N))
   \<and> Token (MongoDBStore_MaxAge m N) = Token m
   \<and> collection (MongoDBStore_MaxAge m N) = collection m"
proof -
  let ?m' = "MongoDBStore_MaxAge m N"
  have codecs: "Codecs ?m' = map (SecureCookie_MaxAge N) (Codecs m)"
    by (simp add: MongoDBStore_MaxAge_def)
  have opts: "MaxAge (store_Options ?m') = N"
    by (simp add: MongoDBStore_MaxAge_def)
  have len: "length (Codecs ?m') = length (Codecs m)"
    using codecs by simp
  have shape: "case Codecs m ! i of
                 SecureCookie old enc dec \<Rightarrow> Codecs ?m' ! i = SecureCookie N enc dec
               | OtherCodec enc dec \<Rightarrow> Codecs ?m' ! i = OtherCodec enc dec"
    if "i < length (Codecs m)" for i
    using that codecs by (cases "Codecs m ! i") simp_all
  have window: "Codec_maxAge (Codecs ?m' ! i) = Some N"
    if "i < length (Codecs m)" and "Codec_maxAge (Codecs m ! i) \<noteq> None" for i
    using that codecs by (simp add: SecureCookie_MaxAge_maxAge)
  have skipped: "Codecs ?m' ! i = Codecs m ! i"
    if "i < length (Codecs m)" and "Codec_maxAge (Codecs m ! i) = None" for i
    using that codecs by (simp add: SecureCookie_MaxAge_other)
  have all: "\<forall>c \<in> set (Codecs ?m'). Codec_maxAge c = Some N"
    if "\<forall>c \<in> set (Codecs m). Codec_maxAge c \<noteq> None"
    using that codecs by (auto simp: SecureCookie_MaxAge_maxAge)
  have rest: "Token ?m' = Token m" "collection ?m' = collection m"
    by (simp_all add: MongoDBStore_MaxAge_def)
  show ?thesis
    using opts len shape window skipped all rest by blast
qed

text \<open>A store with a \<open>SecureCookie\<close> and a codec of another type.\<close>

theorem MaxAge_sets_SecureCookies_witness:
  "MaxAge (store_Options (MongoDBStore_MaxAge mixed_store 60)) = 60 \<and>
   Codec_maxAge (Codecs mixed_store ! 0) = Some 3600 \<and>
   Codec_maxAge (Codecs (MongoDBStore_MaxAge mixed_store 60) ! 0) = Some 60 \<and>
   Codec_maxAge (Codecs mixed_store ! 1) = None \<and>
   Codecs (MongoDBStore_MaxAge mixed_store 60) ! 1 = toy_codec Map.empty"
  using MaxAge_sets_SecureCookies [where m = mixed_store and N = 60]
  by (simp add: mixed_store_def MongoDBStore_MaxAge_def toy_store_def toy_codec_def mute_codec_def)

end
